theory Spec2Isabelle
  imports Main "HOL-Library.Sublist"
begin

section \<open>The platform seen by the service worker\<close>

text \<open>
  The worker of \<^verbatim>\<open>service-worker.js\<close> is four event handlers (install, activate,
  fetch, message) over three platform services: the network (\<^verbatim>\<open>fetch\<close>), the cache
  storage (\<^verbatim>\<open>caches\<close>) and the client registry (\<^verbatim>\<open>self.clients\<close>).
  A handler is modelled as a function from the world before the event to the world after
  all the promises it started have settled; no other handler runs in between. Every call
  of a platform service is appended to a trace, so that "never reads", "never writes" and
  "no live fetch" are statements about the trace. Console output is not modelled.

  A request is its method and its URL, the URL given by the components that
  \<^verbatim>\<open>new URL(request.url)\<close> yields. The worker itself reads the protocol, the
  hostname and the pathname only, but it hands the whole request to \<^verbatim>\<open>fetch\<close>,
  \<^verbatim>\<open>caches.match\<close> and \<^verbatim>\<open>cache.put\<close>, and the cache storage looks at the method:
  it finds nothing for a request that is not a GET, and it refuses to store one. It
  also refuses to store a response of status 206 and a response whose
  \<^verbatim>\<open>Vary\<close> header lists \<^verbatim>\<open>*\<close>. Apart from these refusals the storage does
  not fail: open creates if absent, put overwrites, lookup is optional.

  The fetch handler starts its store write without waiting for it: the answer is handed
  back first and does not depend on the write. The world a handler returns is the one in
  which the write has completed.
\<close>

record request =
  rmethod :: string
  protocol :: string
  hostname :: string
  port :: string
  pathname :: string
  search :: string

datatype response_type = TBasic | TCors | TDefault | TError | TOpaque | TOpaqueRedirect

record response =
  status :: nat
  statusText :: string
  rtype :: response_type
  headers :: "(string \<times> string) list"
  body :: string

text \<open>\<^verbatim>\<open>fetch(request)\<close> either resolves with a response, of any status, or rejects.\<close>

datatype fetch_result = Resolved response | NetworkError

text \<open>
  The environment a handler runs in: what the network answers to a request, and how the
  platform turns a URL string of the manifest into a request (\<^verbatim>\<open>cache.addAll\<close> does
  it, relative to the worker's location).
\<close>

record env =
  net :: "request \<Rightarrow> fetch_result"
  to_request :: "string \<Rightarrow> request"

type_synonym cache = "request \<rightharpoonup> response"

text \<open>The stores in creation order, the order of \<^verbatim>\<open>caches.keys()\<close>.\<close>

type_synonym cache_storage = "(string \<times> cache) list"

datatype message = CacheCleared string | Version string

datatype event =
    Fetch request
  | CachesMatch request
  | CachesOpen string
  | CachePut string request response
  | CachesKeys
  | CachesDelete string
  | SkipWaiting
  | ClientsClaim
  | ClientsMatchAll
  | PostMessage nat message
  | PortPostMessage nat message

text \<open>
  The world: the stores, the clients that \<^verbatim>\<open>self.clients.matchAll()\<close> reports (the
  pages the worker controls), and the platform calls made so far. A message posted to a
  client or to a port is the event \<open>PostMessage\<close> or \<open>PortPostMessage\<close> of the trace.
\<close>

record world =
  caches :: cache_storage
  clients :: "nat list"
  trace :: "event list"

datatype settled = Fulfilled | Rejected

datatype js_error = TypeError

definition record_event :: "event \<Rightarrow> world \<Rightarrow> world" where
  "record_event e w = w\<lparr>trace := trace w @ [e]\<rparr>"

subsection \<open>String tests\<close>

text \<open>\<^verbatim>\<open>s.includes(sub)\<close>: \<open>sub\<close> occurs in \<open>s\<close> as a contiguous substring.\<close>

fun includes_str :: "string \<Rightarrow> string \<Rightarrow> bool" where
  "includes_str [] sub = (sub = [])"
| "includes_str (c # cs) sub = (prefix sub (c # cs) \<or> includes_str cs sub)"

definition startsWith :: "string \<Rightarrow> string \<Rightarrow> bool" where
  "startsWith s p = prefix p s"

subsection \<open>Network\<close>

definition live_fetch :: "env \<Rightarrow> request \<Rightarrow> world \<Rightarrow> fetch_result \<times> world" where
  "live_fetch e req w = (net e req, record_event (Fetch req) w)"

subsection \<open>Cache storage\<close>

text \<open>
  \<^verbatim>\<open>caches.match(request)\<close> asks every store, in creation order, and answers with the
  first entry found; for a request whose method is not GET it finds nothing.
\<close>

fun first_match :: "cache_storage \<Rightarrow> request \<Rightarrow> response option" where
  "first_match [] req = None"
| "first_match ((name, c) # cs) req =
     (case c req of Some r \<Rightarrow> Some r | None \<Rightarrow> first_match cs req)"

definition match_all :: "cache_storage \<Rightarrow> request \<Rightarrow> response option" where
  "match_all cs req = (if rmethod req = ''GET'' then first_match cs req else None)"

definition caches_match :: "request \<Rightarrow> world \<Rightarrow> response option \<times> world" where
  "caches_match req w = (match_all (caches w) req, record_event (CachesMatch req) w)"

text \<open>The entry of one store, by the store's id: \<open>get(store, identity)\<close>.\<close>

definition store_get :: "cache_storage \<Rightarrow> string \<Rightarrow> request \<Rightarrow> response option" where
  "store_get cs name req = (case map_of cs name of None \<Rightarrow> None | Some c \<Rightarrow> c req)"

definition store_ids :: "cache_storage \<Rightarrow> string list" where
  "store_ids cs = map fst cs"

definition open_store :: "string \<Rightarrow> cache_storage \<Rightarrow> cache_storage" where
  "open_store name cs = (if name \<in> set (store_ids cs) then cs else cs @ [(name, Map.empty)])"

definition caches_open :: "string \<Rightarrow> world \<Rightarrow> world" where
  "caches_open name w = record_event (CachesOpen name) (w\<lparr>caches := open_store name (caches w)\<rparr>)"

definition put_store :: "string \<Rightarrow> request \<Rightarrow> response \<Rightarrow> cache_storage \<Rightarrow> cache_storage" where
  "put_store name req resp cs =
     map (\<lambda>(n, c). if n = name then (n, c(req \<mapsto> resp)) else (n, c)) cs"

text \<open>
  The header names of a response are compared without regard to letter case, and a
  \<^verbatim>\<open>Vary\<close> value is a list of field names separated by commas.
\<close>

definition lower_char :: "char \<Rightarrow> char" where
  "lower_char c =
     (case map_of (zip ''ABCDEFGHIJKLMNOPQRSTUVWXYZ'' ''abcdefghijklmnopqrstuvwxyz'') c of
        Some l \<Rightarrow> l
      | None \<Rightarrow> c)"

fun split_commas :: "string \<Rightarrow> string list" where
  "split_commas [] = [[]]"
| "split_commas (c # cs) =
     (if c = CHR '','' then [] # split_commas cs
      else (case split_commas cs of [] \<Rightarrow> [[c]] | t # ts \<Rightarrow> (c # t) # ts))"

definition is_blank :: "char \<Rightarrow> bool" where
  "is_blank c = (c = CHR '' '' \<or> c = CHR 0x09)"

definition trim_blanks :: "string \<Rightarrow> string" where
  "trim_blanks s = rev (dropWhile is_blank (rev (dropWhile is_blank s)))"

definition vary_star :: "response \<Rightarrow> bool" where
  "vary_star resp =
     list_ex (\<lambda>(name, v). map lower_char name = ''vary''
                \<and> ''*'' \<in> set (map trim_blanks (split_commas v)))
       (headers resp)"

text \<open>
  \<^verbatim>\<open>cache.put(request, response)\<close> rejects, and stores nothing, when the request is
  not a GET, when the response has status 206, and when the response's \<^verbatim>\<open>Vary\<close>
  header lists \<^verbatim>\<open>*\<close>. The worker drops the promise of every put it starts, so a
  rejection has no other effect than the missing entry.
\<close>

definition put_accepts :: "request \<Rightarrow> response \<Rightarrow> bool" where
  "put_accepts req resp = (rmethod req = ''GET'' \<and> status resp \<noteq> 206 \<and> \<not> vary_star resp)"

definition cache_put :: "string \<Rightarrow> request \<Rightarrow> response \<Rightarrow> world \<Rightarrow> world" where
  "cache_put name req resp w =
     record_event (CachePut name req resp)
       (if put_accepts req resp then w\<lparr>caches := put_store name req resp (caches w)\<rparr> else w)"

definition caches_keys :: "world \<Rightarrow> string list \<times> world" where
  "caches_keys w = (store_ids (caches w), record_event CachesKeys w)"

definition caches_delete :: "string \<Rightarrow> world \<Rightarrow> world" where
  "caches_delete name w =
     record_event (CachesDelete name) (w\<lparr>caches := filter (\<lambda>(n, c). n \<noteq> name) (caches w)\<rparr>)"

text \<open>
  \<^verbatim>\<open>cache.addAll(urls)\<close> fetches every URL, with a GET request, and is
  all-or-nothing: when a fetch rejects, or a response is not ok (status outside
  200..299, or 206, or of type error) or has a \<^verbatim>\<open>Vary\<close> header that lists
  \<^verbatim>\<open>*\<close>, it rejects and writes nothing; otherwise it stores every response.
\<close>

definition storable :: "fetch_result \<Rightarrow> bool" where
  "storable fr =
     (case fr of
        NetworkError \<Rightarrow> False
      | Resolved r \<Rightarrow>
          rtype r \<noteq> TError \<and> 200 \<le> status r \<and> status r \<le> 299 \<and> status r \<noteq> 206
          \<and> \<not> vary_star r)"

definition put_fetched :: "env \<Rightarrow> string \<Rightarrow> world \<Rightarrow> request \<Rightarrow> world" where
  "put_fetched e name w req =
     (case net e req of Resolved r \<Rightarrow> cache_put name req r w | NetworkError \<Rightarrow> w)"

definition cache_addAll :: "env \<Rightarrow> string \<Rightarrow> string list \<Rightarrow> world \<Rightarrow> settled \<times> world" where
  "cache_addAll e name urls w =
     (let reqs = map (to_request e) urls;
          w1 = foldl (\<lambda>w' req. snd (live_fetch e req w')) w reqs
      in if list_all (\<lambda>req. storable (net e req)) reqs
         then (Fulfilled, foldl (put_fetched e name) w1 reqs)
         else (Rejected, w1))"

subsection \<open>Lifecycle and clients\<close>

definition skipWaiting :: "world \<Rightarrow> world" where
  "skipWaiting w = record_event SkipWaiting w"

definition clients_claim :: "world \<Rightarrow> world" where
  "clients_claim w = record_event ClientsClaim w"

definition clients_matchAll :: "world \<Rightarrow> nat list \<times> world" where
  "clients_matchAll w = (clients w, record_event ClientsMatchAll w)"

definition postMessage :: "message \<Rightarrow> world \<Rightarrow> nat \<Rightarrow> world" where
  "postMessage m w client = record_event (PostMessage client m) w"

section \<open>The worker\<close>

definition CACHE_VERSION :: string where
  "CACHE_VERSION = ''real-dor-v2.1.0''"

definition CACHE_NAME :: string where
  "CACHE_NAME = CACHE_VERSION"

definition urlsToCache :: "string list" where
  "urlsToCache =
     [''/'',
      ''/index.html'',
      ''/manifest.json'',
      ''https://cdn.tailwindcss.com'',
      ''https://fonts.googleapis.com/css2?family=Nunito:wght@400;600;700;800&display=swap'',
      ''https://unpkg.com/react@18/umd/react.production.min.js'',
      ''https://unpkg.com/react-dom@18/umd/react-dom.production.min.js'',
      ''https://unpkg.com/@babel/standalone/babel.min.js'']"

subsection \<open>install\<close>

text \<open>
  The value is how the promise given to \<^verbatim>\<open>event.waitUntil\<close> settles. The chain ends
  in \<^verbatim>\<open>.catch\<close>, whose callback logs the error and returns normally.
\<close>

definition install :: "env \<Rightarrow> world \<Rightarrow> settled \<times> world" where
  "install e w =
     (case cache_addAll e CACHE_NAME urlsToCache (caches_open CACHE_NAME w) of
        (Fulfilled, w1) \<Rightarrow> (Fulfilled, skipWaiting w1)
      | (Rejected, w1) \<Rightarrow> (Fulfilled, w1))"

text \<open>
  The earlier worker kept in the same source file (cache \<^verbatim>\<open>real-dor-v2\<close>): its install
  chain has no \<^verbatim>\<open>.catch\<close> and no \<^verbatim>\<open>skipWaiting\<close>.
\<close>

definition LEGACY_CACHE_NAME :: string where
  "LEGACY_CACHE_NAME = ''real-dor-v2''"

definition legacy_urlsToCache :: "string list" where
  "legacy_urlsToCache =
     [''/'',
      ''/index.html'',
      ''/manifest.json'',
      ''https://cdn.tailwindcss.com'',
      ''https://unpkg.com/react@18/umd/react.production.min.js'',
      ''https://unpkg.com/react-dom@18/umd/react-dom.production.min.js'',
      ''https://unpkg.com/@babel/standalone/babel.min.js'',
      ''https://cdnjs.cloudflare.com/ajax/libs/jspdf/2.5.1/jspdf.umd.min.js'',
      ''https://cdnjs.cloudflare.com/ajax/libs/jspdf-autotable/3.5.31/jspdf.plugin.autotable.min.js'']"

definition legacy_install :: "env \<Rightarrow> world \<Rightarrow> settled \<times> world" where
  "legacy_install e w =
     cache_addAll e LEGACY_CACHE_NAME legacy_urlsToCache (caches_open LEGACY_CACHE_NAME w)"

subsection \<open>activate\<close>

definition delete_if_old :: "world \<Rightarrow> string \<Rightarrow> world" where
  "delete_if_old w cacheName = (if cacheName \<noteq> CACHE_NAME then caches_delete cacheName w else w)"

definition activate :: "world \<Rightarrow> world" where
  "activate w =
     (case caches_keys w of
        (cacheNames, w1) \<Rightarrow> clients_claim (foldl delete_if_old w1 cacheNames))"

subsection \<open>fetch\<close>

text \<open>
  What the handler does with the request: it leaves it to the browser (no
  \<^verbatim>\<open>respondWith\<close>), it answers with a response, or the promise given to
  \<^verbatim>\<open>respondWith\<close> rejects.
\<close>

datatype answer = NotIntercepted | Reply response | Failed

definition isHttp :: "request \<Rightarrow> bool" where
  "isHttp req = startsWith (protocol req) ''http''"

definition isFirebase :: "request \<Rightarrow> bool" where
  "isFirebase req =
     (includes_str (hostname req) ''firebase'' \<or>
      includes_str (hostname req) ''firestore'' \<or>
      includes_str (hostname req) ''firebasestorage'')"

definition isLibrary :: "request \<Rightarrow> bool" where
  "isLibrary req =
     (includes_str (hostname req) ''cdn'' \<or>
      includes_str (hostname req) ''unpkg'' \<or>
      includes_str (hostname req) ''cloudflare'' \<or>
      includes_str (hostname req) ''jsdelivr'' \<or>
      includes_str (hostname req) ''fonts.googleapis'' \<or>
      includes_str (hostname req) ''fonts.gstatic'')"

definition offline_response :: "string \<Rightarrow> response" where
  "offline_response text =
     \<lparr>status = 503, statusText = ''Service Unavailable'', rtype = TDefault,
      headers = [(''Content-Type'', ''text/plain'')], body = text\<rparr>"

definition libraryOffline :: response where
  "libraryOffline = offline_response ''Offline - Libreria non disponibile''"

definition appOffline :: response where
  "appOffline = offline_response ''Offline - Contenuto non disponibile''"

text \<open>
  The three ways of answering. \<^verbatim>\<open>fetch\<close> resolves with a response object, so the
  test \<^verbatim>\<open>!response\<close> of the library branch is never true and only the tests of the
  status and of the type remain.
\<close>

definition bypass :: "env \<Rightarrow> request \<Rightarrow> world \<Rightarrow> answer \<times> world" where
  "bypass e req w =
     (case live_fetch e req w of
        (Resolved response, w1) \<Rightarrow> (Reply response, w1)
      | (NetworkError, w1) \<Rightarrow> (Failed, w1))"

definition cacheFirst :: "env \<Rightarrow> request \<Rightarrow> world \<Rightarrow> answer \<times> world" where
  "cacheFirst e req w =
     (case caches_match req w of
        (Some cachedResponse, w1) \<Rightarrow> (Reply cachedResponse, w1)
      | (None, w1) \<Rightarrow>
          (case live_fetch e req w1 of
             (Resolved response, w2) \<Rightarrow>
               if status response \<noteq> 200 \<or> rtype response = TError
               then (Reply response, w2)
               else (Reply response, cache_put CACHE_NAME req response (caches_open CACHE_NAME w2))
           | (NetworkError, w2) \<Rightarrow>
               (case caches_match req w2 of
                  (Some cached, w3) \<Rightarrow> (Reply cached, w3)
                | (None, w3) \<Rightarrow> (Reply libraryOffline, w3))))"

definition networkFirst :: "env \<Rightarrow> request \<Rightarrow> world \<Rightarrow> answer \<times> world" where
  "networkFirst e req w =
     (case live_fetch e req w of
        (Resolved response, w1) \<Rightarrow>
          (Reply response, cache_put CACHE_NAME req response (caches_open CACHE_NAME w1))
      | (NetworkError, w1) \<Rightarrow>
          (case caches_match req w1 of
             (Some response, w2) \<Rightarrow> (Reply response, w2)
           | (None, w2) \<Rightarrow> (Reply appOffline, w2)))"

definition on_fetch :: "env \<Rightarrow> request \<Rightarrow> world \<Rightarrow> answer \<times> world" where
  "on_fetch e req w =
     (if \<not> isHttp req then (NotIntercepted, w)
      else if isFirebase req then bypass e req w
      else if isLibrary req then cacheFirst e req w
      else networkFirst e req w)"

subsection \<open>message\<close>

text \<open>
  Of a message event the handler reads \<^verbatim>\<open>event.data.type\<close> and \<^verbatim>\<open>event.ports\<close>;
  \<open>msg_type\<close> is \<open>None\<close> when \<^verbatim>\<open>event.data\<close> is falsy or has no such field.
\<close>

record message_event =
  msg_type :: "string option"
  ports :: "nat list"

definition clear_cache :: "world \<Rightarrow> world" where
  "clear_cache w =
     (case caches_keys w of
        (names, w1) \<Rightarrow>
          (case clients_matchAll (foldl (\<lambda>w' name. caches_delete name w') w1 names) of
             (cs, w2) \<Rightarrow> foldl (postMessage (CacheCleared ''Cache pulita con successo!'')) w2 cs))"

definition on_message :: "message_event \<Rightarrow> world \<Rightarrow> js_error + world" where
  "on_message ev w =
     (let w1 = (if msg_type ev = Some ''SKIP_WAITING'' then skipWaiting w else w);
          w2 = (if msg_type ev = Some ''CLEAR_CACHE'' then clear_cache w1 else w1)
      in if msg_type ev = Some ''GET_VERSION''
         then (case ports ev of
                 [] \<Rightarrow> Inl TypeError
               | replyPort # rest \<Rightarrow>
                   Inr (record_event (PortPostMessage replyPort (Version CACHE_VERSION)) w2))
         else Inr w2)"

section \<open>Example inputs\<close>

text \<open>
  Concrete requests, responses, networks and worlds at which the theorems below are
  instantiated. The origin of the application is taken to be
  \<^verbatim>\<open>https://realdor.example\<close>.
\<close>

definition tailwind :: request where
  "tailwind =
     \<lparr>rmethod = ''GET'', protocol = ''https:'', hostname = ''cdn.tailwindcss.com'', port = '''',
      pathname = ''/'', search = ''''\<rparr>"

definition index_html :: request where
  "index_html =
     \<lparr>rmethod = ''GET'', protocol = ''https:'', hostname = ''realdor.example'', port = '''',
      pathname = ''/index.html'', search = ''''\<rparr>"

definition firestore_listen :: request where
  "firestore_listen =
     \<lparr>rmethod = ''POST'', protocol = ''https:'', hostname = ''firestore.googleapis.com'',
      port = '''', pathname = ''/google.firestore.v1.Firestore/Listen/channel'', search = ''''\<rparr>"

definition page :: "nat \<Rightarrow> string \<Rightarrow> response" where
  "page code text =
     \<lparr>status = code, statusText = '''', rtype = TBasic, headers = [], body = text\<rparr>"

text \<open>
  A form posted to the application's origin, a response to a range request, and a
  response whose \<^verbatim>\<open>Vary\<close> header lists \<^verbatim>\<open>*\<close>.
\<close>

definition form_post :: request where
  "form_post =
     \<lparr>rmethod = ''POST'', protocol = ''https:'', hostname = ''realdor.example'', port = '''',
      pathname = ''/submit'', search = ''''\<rparr>"

definition font_post :: request where
  "font_post =
     \<lparr>rmethod = ''POST'', protocol = ''https:'', hostname = ''fonts.googleapis.com'', port = '''',
      pathname = ''/css2'', search = ''''\<rparr>"

definition partial_content :: response where
  "partial_content =
     \<lparr>status = 206, statusText = ''Partial Content'', rtype = TBasic,
      headers = [(''Content-Range'', ''bytes 0-99/1000'')], body = ''first bytes''\<rparr>"

definition varying :: response where
  "varying =
     \<lparr>status = 200, statusText = ''OK'', rtype = TCors, headers = [(''Vary'', ''*'')],
      body = ''css''\<rparr>"

text \<open>The manifest's URLs as requests, seen from the application's origin.\<close>

definition resolve :: "string \<Rightarrow> request" where
  "resolve u =
     (if u = ''https://cdn.tailwindcss.com'' then tailwind
      else if u = ''https://fonts.googleapis.com/css2?family=Nunito:wght@400;600;700;800&display=swap''
        then \<lparr>rmethod = ''GET'', protocol = ''https:'', hostname = ''fonts.googleapis.com'',
              port = '''', pathname = ''/css2'',
              search = ''?family=Nunito:wght@400;600;700;800&display=swap''\<rparr>
      else if take 18 u = ''https://unpkg.com/''
        then \<lparr>rmethod = ''GET'', protocol = ''https:'', hostname = ''unpkg.com'', port = '''',
              pathname = drop 17 u, search = ''''\<rparr>
      else if take 29 u = ''https://cdnjs.cloudflare.com/''
        then \<lparr>rmethod = ''GET'', protocol = ''https:'', hostname = ''cdnjs.cloudflare.com'',
              port = '''', pathname = drop 28 u, search = ''''\<rparr>
      else \<lparr>rmethod = ''GET'', protocol = ''https:'', hostname = ''realdor.example'', port = '''',
            pathname = u, search = ''''\<rparr>)"

definition offline :: env where
  "offline = \<lparr>net = (\<lambda>req. NetworkError), to_request = resolve\<rparr>"

definition serving :: "response \<Rightarrow> env" where
  "serving r = \<lparr>net = (\<lambda>req. Resolved r), to_request = resolve\<rparr>"

definition holding :: "cache_storage \<Rightarrow> world" where
  "holding cs = \<lparr>caches = cs, clients = [], trace = []\<rparr>"

text \<open>
  A network on which every fetch resolves with status 200 but the one of
  \<^verbatim>\<open>/manifest.json\<close>, which rejects; and a world in which the earlier worker has
  left its store.
\<close>

definition without_manifest :: env where
  "without_manifest =
     \<lparr>net = (\<lambda>req. if pathname req = ''/manifest.json'' then NetworkError
                   else Resolved (page 200 ''content'')),
      to_request = resolve\<rparr>"

definition previous_generation :: world where
  "previous_generation = holding [(LEGACY_CACHE_NAME, [index_html \<mapsto> page 200 ''v2''])]"

text \<open>A world with the stores of two generations and two connected pages.\<close>

definition two_pages :: world where
  "two_pages =
     \<lparr>caches = [(LEGACY_CACHE_NAME, [index_html \<mapsto> page 200 ''v2'']),
                (CACHE_NAME, [tailwind \<mapsto> page 200 ''css''])],
      clients = [1, 2], trace = []\<rparr>"

section \<open>Facts about the platform operations\<close>

lemma includes_str_sublist: "includes_str s sub \<longleftrightarrow> sublist sub s"
  by (induction s) (simp_all add: sublist_Cons_right)

lemma caches_record_event: "caches (record_event ev w) = caches w"
  by (simp add: record_event_def)

lemma trace_record_event: "trace (record_event ev w) = trace w @ [ev]"
  by (simp add: record_event_def)

lemma clients_record_event: "clients (record_event ev w) = clients w"
  by (simp add: record_event_def)

lemma store_ids_put_store: "store_ids (put_store name req resp cs) = store_ids cs"
  by (induction cs) (auto simp: store_ids_def put_store_def)

lemma map_of_put_store_other:
  "n \<noteq> name \<Longrightarrow> map_of (put_store name req resp cs) n = map_of cs n"
  by (induction cs) (auto simp: put_store_def)

lemma map_of_open_store_other:
  "n \<noteq> name \<Longrightarrow> map_of (open_store name cs) n = map_of cs n"
  by (auto simp: open_store_def map_add_def split: option.splits)

lemma open_store_has: "name \<in> set (store_ids (open_store name cs))"
  by (simp add: open_store_def store_ids_def)

lemma store_get_put_store:
  "store_get (put_store name req resp cs) name req =
     (if name \<in> set (store_ids cs) then Some resp else None)"
  by (induction cs) (auto simp: store_get_def put_store_def store_ids_def)

lemma store_get_put_open:
  "store_get (put_store name req resp (open_store name cs)) name req = Some resp"
  by (simp add: store_get_put_store open_store_has)

lemma store_get_open_store: "store_get (open_store name cs) n req = store_get cs n req"
proof (cases "name \<in> set (store_ids cs)")
  case True
  then show ?thesis by (simp add: open_store_def)
next
  case False
  then have "map_of cs name = None"
    by (simp add: store_ids_def map_of_eq_None_iff)
  with False show ?thesis
    by (simp add: store_get_def open_store_def map_add_def split: option.splits)
qed

lemma caches_put_accepted:
  "put_accepts req resp \<Longrightarrow>
   caches (cache_put name req resp (caches_open name w)) =
     put_store name req resp (open_store name (caches w))"
  by (simp add: cache_put_def caches_open_def caches_record_event)

lemma caches_put_refused:
  "\<not> put_accepts req resp \<Longrightarrow>
   caches (cache_put name req resp (caches_open name w)) = open_store name (caches w)"
  by (simp add: cache_put_def caches_open_def caches_record_event)

lemma caches_cache_put:
  "caches (cache_put name req resp w) =
     (if put_accepts req resp then put_store name req resp (caches w) else caches w)"
  by (simp add: cache_put_def caches_record_event)

lemma trace_cache_put: "trace (cache_put name req resp w) = trace w @ [CachePut name req resp]"
  by (simp add: cache_put_def trace_record_event)

lemma first_match_None:
  "first_match cs req = None \<longleftrightarrow> (\<forall>(n, c) \<in> set cs. c req = None)"
  by (induction cs req rule: first_match.induct) (auto split: option.splits)

lemma first_match_put_absent:
  "first_match cs req = None \<Longrightarrow> name \<in> set (store_ids cs) \<Longrightarrow>
   first_match (put_store name req resp cs) req = Some resp"
  by (induction cs req rule: first_match.induct)
     (auto simp: put_store_def store_ids_def split: option.splits)

lemma first_match_open_store: "first_match (open_store name cs) req = first_match cs req"
  by (induction cs req rule: first_match.induct)
     (auto simp: open_store_def store_ids_def split: option.splits)

lemma match_all_Nil: "match_all [] req = None"
  by (simp add: match_all_def)

lemma match_all_not_get: "rmethod req \<noteq> ''GET'' \<Longrightarrow> match_all cs req = None"
  by (simp add: match_all_def)

lemma match_all_put_absent:
  "rmethod req = ''GET'' \<Longrightarrow> match_all cs req = None \<Longrightarrow> name \<in> set (store_ids cs) \<Longrightarrow>
   match_all (put_store name req resp cs) req = Some resp"
  by (simp add: match_all_def first_match_put_absent)

lemma match_all_open_store: "match_all (open_store name cs) req = match_all cs req"
  by (simp add: match_all_def first_match_open_store)

lemma tailwind_class: "isHttp tailwind" "\<not> isFirebase tailwind" "isLibrary tailwind"
  by (simp_all add: isHttp_def isFirebase_def isLibrary_def startsWith_def tailwind_def)

lemma index_html_class: "isHttp index_html" "\<not> isFirebase index_html" "\<not> isLibrary index_html"
  by (simp_all add: isHttp_def isFirebase_def isLibrary_def startsWith_def index_html_def)

lemma firestore_class: "isHttp firestore_listen" "isFirebase firestore_listen"
  by (simp_all add: isHttp_def isFirebase_def startsWith_def firestore_listen_def)

section \<open>The fetch strategies\<close>

text \<open>
  Claim C4. A CacheFirst-class request (an http(s) request that is not for a Firebase
  host and whose host is a library host) whose identity the store lookup finds is
  answered with the stored snapshot, and no live fetch is attempted: the lookup is the
  only platform call the handler makes, and the storage is left as it was.
\<close>

theorem cacheFirst_hit:
  assumes "isHttp req" and "\<not> isFirebase req" and "isLibrary req"
    and "match_all (caches w) req = Some cached"
  shows "fst (on_fetch e req w) = Reply cached
       \<and> trace (snd (on_fetch e req w)) = trace w @ [CachesMatch req]
       \<and> caches (snd (on_fetch e req w)) = caches w"
  using assms
  by (simp add: on_fetch_def cacheFirst_def caches_match_def caches_record_event
      trace_record_event)

theorem cacheFirst_hit_witness:
  "isHttp tailwind \<and> \<not> isFirebase tailwind \<and> isLibrary tailwind \<and>
   match_all (caches (holding [(CACHE_NAME, [tailwind \<mapsto> page 200 ''css''])])) tailwind
     = Some (page 200 ''css'') \<and>
   fst (on_fetch offline tailwind (holding [(CACHE_NAME, [tailwind \<mapsto> page 200 ''css''])]))
     = Reply (page 200 ''css'') \<and>
   trace (snd (on_fetch offline tailwind
                 (holding [(CACHE_NAME, [tailwind \<mapsto> page 200 ''css''])])))
     = [CachesMatch tailwind]"
proof -
  have hit: "match_all (caches (holding [(CACHE_NAME, [tailwind \<mapsto> page 200 ''css''])])) tailwind
      = Some (page 200 ''css'')"
    by (simp add: holding_def match_all_def tailwind_def)
  have "trace (holding [(CACHE_NAME, [tailwind \<mapsto> page 200 ''css''])]) = []"
    by (simp add: holding_def)
  then show ?thesis
    using cacheFirst_hit [OF tailwind_class hit, of offline] tailwind_class hit by simp
qed

lemma answer_of_bypass:
  "bypass e req w =
     (case net e req of Resolved r \<Rightarrow> Reply r | NetworkError \<Rightarrow> Failed, record_event (Fetch req) w)"
  by (simp add: bypass_def live_fetch_def split: fetch_result.splits)

text \<open>
  Claim C2. A request whose hostname matches the always-live list (it contains
  \<^verbatim>\<open>firebase\<close>, \<^verbatim>\<open>firestore\<close> or \<^verbatim>\<open>firebasestorage\<close>) never touches a
  store: whatever the network answers, the storage after the handler is the storage
  before it, and the only platform call the handler can make is the live fetch of that
  request. For an http(s) request the handler makes exactly that one call and resolves
  with its outcome: the live response, or the rejection of the fetch.
\<close>

theorem bypass_live_fetch_only:
  assumes "isFirebase req"
  shows "caches (snd (on_fetch e req w)) = caches w
       \<and> (\<exists>evs. trace (snd (on_fetch e req w)) = trace w @ evs \<and> set evs \<subseteq> {Fetch req})
       \<and> (isHttp req \<longrightarrow>
            fst (on_fetch e req w) =
              (case net e req of Resolved r \<Rightarrow> Reply r | NetworkError \<Rightarrow> Failed)
          \<and> trace (snd (on_fetch e req w)) = trace w @ [Fetch req])"
  using assms
  by (simp add: on_fetch_def answer_of_bypass caches_record_event trace_record_event)

theorem bypass_live_fetch_only_witness:
  "isFirebase firestore_listen \<and> isHttp firestore_listen \<and>
   caches (snd (on_fetch offline firestore_listen
                  (holding [(CACHE_NAME, [firestore_listen \<mapsto> page 200 ''old''])])))
     = [(CACHE_NAME, [firestore_listen \<mapsto> page 200 ''old''])] \<and>
   fst (on_fetch offline firestore_listen
          (holding [(CACHE_NAME, [firestore_listen \<mapsto> page 200 ''old''])])) = Failed \<and>
   fst (on_fetch (serving (page 500 ''down'')) firestore_listen
          (holding [(CACHE_NAME, [firestore_listen \<mapsto> page 200 ''old''])]))
     = Reply (page 500 ''down'') \<and>
   trace (snd (on_fetch offline firestore_listen
                 (holding [(CACHE_NAME, [firestore_listen \<mapsto> page 200 ''old''])])))
     = [Fetch firestore_listen]"
  using bypass_live_fetch_only [OF firestore_class(2), of offline
          "holding [(CACHE_NAME, [firestore_listen \<mapsto> page 200 ''old''])]"]
        bypass_live_fetch_only [OF firestore_class(2), of "serving (page 500 ''down'')"
          "holding [(CACHE_NAME, [firestore_listen \<mapsto> page 200 ''old''])]"]
        firestore_class
  by (simp add: holding_def offline_def serving_def)

lemma networkFirst_resolved:
  assumes "isHttp req" and "\<not> isFirebase req" and "\<not> isLibrary req"
    and "net e req = Resolved live"
  shows "on_fetch e req w =
      (Reply live,
       cache_put CACHE_NAME req live (caches_open CACHE_NAME (record_event (Fetch req) w)))"
  using assms by (simp add: on_fetch_def networkFirst_def live_fetch_def)

lemma cacheFirst_miss_resolved:
  assumes "isHttp req" and "\<not> isFirebase req" and "isLibrary req"
    and "match_all (caches w) req = None"
    and "net e req = Resolved live"
    and "status live = 200" and "rtype live \<noteq> TError"
  shows "on_fetch e req w =
      (Reply live,
       cache_put CACHE_NAME req live
         (caches_open CACHE_NAME (record_event (Fetch req) (record_event (CachesMatch req) w))))"
  using assms by (simp add: on_fetch_def cacheFirst_def caches_match_def live_fetch_def)

text \<open>
  Claim C3, as stated: the store holds the live response after every NetworkFirst
  request whose live fetch resolves. It fails where \<^verbatim>\<open>cache.put\<close> refuses the
  write: a posted form, a response of status 206 (the entry stored before stays), and a
  response whose \<^verbatim>\<open>Vary\<close> header lists \<^verbatim>\<open>*\<close>. In each case the request is of
  the NetworkFirst class, the live fetch resolves, and the store does not hold the live
  response afterwards.
\<close>

theorem networkFirst_live_not_stored:
  "isHttp form_post \<and> \<not> isFirebase form_post \<and> \<not> isLibrary form_post \<and>
   net (serving (page 200 ''done'')) form_post = Resolved (page 200 ''done'') \<and>
   store_get (caches (snd (on_fetch (serving (page 200 ''done'')) form_post
                             (holding []))))
       CACHE_NAME form_post
     \<noteq> Some (page 200 ''done'') \<and>
   isHttp index_html \<and> \<not> isFirebase index_html \<and> \<not> isLibrary index_html \<and>
   net (serving partial_content) index_html = Resolved partial_content \<and>
   store_get (caches (snd (on_fetch (serving partial_content) index_html
                             (holding [(CACHE_NAME, map_of [(index_html, page 200 ''app'')])]))))
       CACHE_NAME index_html
     = Some (page 200 ''app'') \<and>
   page 200 ''app'' \<noteq> partial_content \<and>
   net (serving varying) index_html = Resolved varying \<and>
   store_get (caches (snd (on_fetch (serving varying) index_html
                             (holding []))))
       CACHE_NAME index_html
     \<noteq> Some varying"
proof -
  have refused: "\<not> put_accepts form_post (page 200 ''done'')"
      "\<not> put_accepts index_html partial_content" "\<not> put_accepts index_html varying"
    by (simp_all add: put_accepts_def form_post_def partial_content_def varying_def
        vary_star_def lower_char_def trim_blanks_def is_blank_def)
  have form_class: "isHttp form_post" "\<not> isFirebase form_post" "\<not> isLibrary form_post"
    by (simp_all add: isHttp_def isFirebase_def isLibrary_def startsWith_def form_post_def)
  have live: "net (serving (page 200 ''done'')) form_post = Resolved (page 200 ''done'')"
      "net (serving partial_content) index_html = Resolved partial_content"
      "net (serving varying) index_html = Resolved varying"
    by (simp_all add: serving_def)
  have "store_get (caches (snd (on_fetch (serving (page 200 ''done'')) form_post
                             (holding []))))
       CACHE_NAME form_post = None"
    by (simp add: networkFirst_resolved [OF form_class live(1)] caches_put_refused [OF refused(1)]
        caches_record_event store_get_open_store)
       (simp add: holding_def store_get_def)
  moreover have "store_get (caches (snd (on_fetch (serving partial_content) index_html
                             (holding [(CACHE_NAME, map_of [(index_html, page 200 ''app'')])]))))
       CACHE_NAME index_html = Some (page 200 ''app'')"
    by (simp add: networkFirst_resolved [OF index_html_class live(2)]
        caches_put_refused [OF refused(2)] caches_record_event store_get_open_store)
       (simp add: holding_def store_get_def)
  moreover have "store_get (caches (snd (on_fetch (serving varying) index_html
                             (holding []))))
       CACHE_NAME index_html = None"
    by (simp add: networkFirst_resolved [OF index_html_class live(3)]
        caches_put_refused [OF refused(3)] caches_record_event store_get_open_store)
       (simp add: holding_def store_get_def)
  moreover have "page 200 ''app'' \<noteq> partial_content"
    by (simp add: page_def partial_content_def)
  ultimately show ?thesis
    using form_class index_html_class live by simp
qed

text \<open>
  Claim C3, amended. A NetworkFirst-class request (an http(s) request for neither a
  Firebase nor a library host) whose live fetch resolves, with whatever status, is
  answered with the live response, and the handler fetches, opens the current
  generation's store and puts, with no test of the status. When the request is a GET and
  the response is neither of status 206 nor has a \<^verbatim>\<open>Vary\<close> header that lists
  \<^verbatim>\<open>*\<close>, the current generation's store holds the live response under the request
  afterwards. Otherwise the put is refused and every entry of every store is what it was.
\<close>

theorem networkFirst_live_stored:
  assumes "isHttp req" and "\<not> isFirebase req" and "\<not> isLibrary req"
    and "net e req = Resolved live"
  shows "fst (on_fetch e req w) = Reply live
       \<and> trace (snd (on_fetch e req w))
           = trace w @ [Fetch req, CachesOpen CACHE_NAME, CachePut CACHE_NAME req live]
       \<and> (rmethod req = ''GET'' \<and> status live \<noteq> 206 \<and> \<not> vary_star live \<longrightarrow>
            store_get (caches (snd (on_fetch e req w))) CACHE_NAME req = Some live)
       \<and> (\<not> (rmethod req = ''GET'' \<and> status live \<noteq> 206 \<and> \<not> vary_star live) \<longrightarrow>
            (\<forall>name r. store_get (caches (snd (on_fetch e req w))) name r
                        = store_get (caches w) name r))"
proof -
  note run = networkFirst_resolved [OF assms, of w]
  have answered: "fst (on_fetch e req w) = Reply live"
    by (simp add: run)
  have calls: "trace (snd (on_fetch e req w))
      = trace w @ [Fetch req, CachesOpen CACHE_NAME, CachePut CACHE_NAME req live]"
    by (simp add: run trace_cache_put caches_open_def trace_record_event)
  have stored: "store_get (caches (snd (on_fetch e req w))) CACHE_NAME req = Some live"
    if "rmethod req = ''GET'' \<and> status live \<noteq> 206 \<and> \<not> vary_star live"
  proof -
    from that have "put_accepts req live"
      by (simp add: put_accepts_def)
    then show ?thesis
      by (simp add: run caches_put_accepted caches_record_event store_get_put_open)
  qed
  have kept: "store_get (caches (snd (on_fetch e req w))) name r = store_get (caches w) name r"
    if "\<not> (rmethod req = ''GET'' \<and> status live \<noteq> 206 \<and> \<not> vary_star live)" for name r
  proof -
    from that have "\<not> put_accepts req live"
      by (simp add: put_accepts_def)
    then show ?thesis
      by (simp add: run caches_put_refused caches_record_event store_get_open_store)
  qed
  show ?thesis
    using answered calls stored kept by blast
qed

theorem networkFirst_live_stored_witness:
  "isHttp index_html \<and> \<not> isFirebase index_html \<and> \<not> isLibrary index_html \<and>
   net (serving (page 404 ''gone'')) index_html = Resolved (page 404 ''gone'') \<and>
   rmethod index_html = ''GET'' \<and> status (page 404 ''gone'') \<noteq> 206 \<and>
   \<not> vary_star (page 404 ''gone'') \<and>
   fst (on_fetch (serving (page 404 ''gone'')) index_html
          (holding [(CACHE_NAME, [index_html \<mapsto> page 200 ''app''])]))
     = Reply (page 404 ''gone'') \<and>
   store_get (caches (snd (on_fetch (serving (page 404 ''gone'')) index_html
                             (holding [(CACHE_NAME, [index_html \<mapsto> page 200 ''app''])]))))
       CACHE_NAME index_html
     = Some (page 404 ''gone'') \<and>
   isHttp form_post \<and> \<not> isFirebase form_post \<and> \<not> isLibrary form_post \<and>
   net (serving (page 200 ''done'')) form_post = Resolved (page 200 ''done'') \<and>
   rmethod form_post \<noteq> ''GET'' \<and>
   store_get (caches (snd (on_fetch (serving (page 200 ''done'')) form_post
                             (holding [(CACHE_NAME, [index_html \<mapsto> page 200 ''app''])]))))
       CACHE_NAME index_html
     = store_get (caches (holding [(CACHE_NAME, [index_html \<mapsto> page 200 ''app''])]))
         CACHE_NAME index_html"
proof -
  have live: "net (serving (page 404 ''gone'')) index_html = Resolved (page 404 ''gone'')"
    by (simp add: serving_def)
  have accepted: "rmethod index_html = ''GET'' \<and> status (page 404 ''gone'') \<noteq> 206 \<and>
      \<not> vary_star (page 404 ''gone'')"
    by (simp add: index_html_def page_def vary_star_def)
  have form_class: "isHttp form_post" "\<not> isFirebase form_post" "\<not> isLibrary form_post"
    by (simp_all add: isHttp_def isFirebase_def isLibrary_def startsWith_def form_post_def)
  have sent: "net (serving (page 200 ''done'')) form_post = Resolved (page 200 ''done'')"
    by (simp add: serving_def)
  have posted: "rmethod form_post \<noteq> ''GET''"
    by (simp add: form_post_def)
  show ?thesis
    using networkFirst_live_stored [OF index_html_class live,
            of "holding [(CACHE_NAME, [index_html \<mapsto> page 200 ''app''])]"]
          networkFirst_live_stored [OF form_class sent,
            of "holding [(CACHE_NAME, [index_html \<mapsto> page 200 ''app''])]"]
          index_html_class live accepted form_class sent posted
    by simp
qed

text \<open>
  Claim C5, as stated: after a CacheFirst miss whose live fetch resolves with status 200
  and a type other than error, a lookup finds the live response. It fails where
  \<^verbatim>\<open>cache.put\<close> refuses the write: a response whose \<^verbatim>\<open>Vary\<close> header lists
  \<^verbatim>\<open>*\<close>, and a request that is not a GET. In both cases the request is of the
  CacheFirst class, the lookup misses, the live fetch resolves with status 200, and the
  later lookup finds nothing.
\<close>

theorem cacheFirst_miss_200_not_stored:
  "isHttp tailwind \<and> \<not> isFirebase tailwind \<and> isLibrary tailwind \<and>
   match_all (caches (holding [])) tailwind = None \<and>
   net (serving varying) tailwind = Resolved varying \<and>
   status varying = 200 \<and> rtype varying \<noteq> TError \<and>
   fst (on_fetch (serving varying) tailwind (holding [])) = Reply varying \<and>
   match_all (caches (snd (on_fetch (serving varying) tailwind
                             (holding [])))) tailwind = None \<and>
   store_get (caches (snd (on_fetch (serving varying) tailwind
                             (holding [])))) CACHE_NAME tailwind = None \<and>
   isHttp font_post \<and> \<not> isFirebase font_post \<and> isLibrary font_post \<and>
   match_all (caches (holding [])) font_post = None \<and>
   net (serving (page 200 ''css'')) font_post = Resolved (page 200 ''css'') \<and>
   status (page 200 ''css'') = 200 \<and> rtype (page 200 ''css'') \<noteq> TError \<and>
   match_all (caches (snd (on_fetch (serving (page 200 ''css'')) font_post
                             (holding [])))) font_post = None \<and>
   store_get (caches (snd (on_fetch (serving (page 200 ''css'')) font_post
                             (holding [])))) CACHE_NAME font_post = None"
proof -
  have refused: "\<not> put_accepts tailwind varying" "\<not> put_accepts font_post (page 200 ''css'')"
    by (simp_all add: put_accepts_def font_post_def varying_def vary_star_def lower_char_def
        trim_blanks_def is_blank_def)
  have font_class: "isHttp font_post" "\<not> isFirebase font_post" "isLibrary font_post"
    by (simp_all add: isHttp_def isFirebase_def isLibrary_def startsWith_def font_post_def)
  have misses: "match_all (caches (holding [])) tailwind = None"
      "match_all (caches (holding [])) font_post = None"
    by (simp_all add: holding_def match_all_Nil)
  have live: "net (serving varying) tailwind = Resolved varying"
      "net (serving (page 200 ''css'')) font_post = Resolved (page 200 ''css'')"
    by (simp_all add: serving_def)
  have ok: "status varying = 200" "rtype varying \<noteq> TError"
      "status (page 200 ''css'') = 200" "rtype (page 200 ''css'') \<noteq> TError"
    by (simp_all add: varying_def page_def)
  note after_varying = cacheFirst_miss_resolved [OF tailwind_class misses(1) live(1) ok(1,2)]
  note after_post = cacheFirst_miss_resolved [OF font_class misses(2) live(2) ok(3,4)]
  have "fst (on_fetch (serving varying) tailwind (holding []))
      = Reply varying"
    by (simp add: after_varying)
  moreover have "caches (snd (on_fetch (serving varying) tailwind
                                (holding [])))
      = [(CACHE_NAME, Map.empty)]"
    by (simp add: after_varying caches_put_refused [OF refused(1)] caches_record_event)
       (simp add: open_store_def store_ids_def holding_def)
  moreover have "caches (snd (on_fetch (serving (page 200 ''css'')) font_post
                                (holding [])))
      = [(CACHE_NAME, Map.empty)]"
    by (simp add: after_post caches_put_refused [OF refused(2)] caches_record_event)
       (simp add: open_store_def store_ids_def holding_def)
  ultimately show ?thesis
    using tailwind_class font_class misses live ok
    by (simp add: store_get_def match_all_def)
qed

text \<open>
  Claim C5, amended. A CacheFirst-class request that the store lookup does not find and
  whose live fetch resolves with status 200 and a type other than error is answered with
  the live response. When the request is a GET and the response has no \<^verbatim>\<open>Vary\<close>
  header that lists \<^verbatim>\<open>*\<close>, a lookup of the request afterwards finds that same
  response, both through \<^verbatim>\<open>caches.match\<close> and in the current generation's store.
  Otherwise the put is refused: every entry of every store is what it was and the lookup
  still finds nothing.
\<close>

theorem cacheFirst_miss_200_stored:
  assumes "isHttp req" and "\<not> isFirebase req" and "isLibrary req"
    and "match_all (caches w) req = None"
    and "net e req = Resolved live"
    and "status live = 200" and "rtype live \<noteq> TError"
  shows "fst (on_fetch e req w) = Reply live
       \<and> (rmethod req = ''GET'' \<and> \<not> vary_star live \<longrightarrow>
            match_all (caches (snd (on_fetch e req w))) req = Some live
          \<and> store_get (caches (snd (on_fetch e req w))) CACHE_NAME req = Some live)
       \<and> (\<not> (rmethod req = ''GET'' \<and> \<not> vary_star live) \<longrightarrow>
            match_all (caches (snd (on_fetch e req w))) req = None
          \<and> (\<forall>name r. store_get (caches (snd (on_fetch e req w))) name r
                        = store_get (caches w) name r))"
proof -
  note run = cacheFirst_miss_resolved [OF assms]
  have answered: "fst (on_fetch e req w) = Reply live"
    by (simp add: run)
  have found: "match_all (caches (snd (on_fetch e req w))) req = Some live"
      and stored: "store_get (caches (snd (on_fetch e req w))) CACHE_NAME req = Some live"
    if "rmethod req = ''GET'' \<and> \<not> vary_star live"
  proof -
    from that assms(6) have accepted: "put_accepts req live" and "rmethod req = ''GET''"
      by (simp_all add: put_accepts_def)
    then show "match_all (caches (snd (on_fetch e req w))) req = Some live"
      using assms(4)
      by (simp add: run caches_put_accepted caches_record_event match_all_put_absent
          match_all_open_store open_store_has)
    show "store_get (caches (snd (on_fetch e req w))) CACHE_NAME req = Some live"
      by (simp add: run caches_put_accepted [OF accepted] caches_record_event store_get_put_open)
  qed
  have missed: "match_all (caches (snd (on_fetch e req w))) req = None"
      and kept: "\<forall>name r. store_get (caches (snd (on_fetch e req w))) name r
                        = store_get (caches w) name r"
    if "\<not> (rmethod req = ''GET'' \<and> \<not> vary_star live)"
  proof -
    from that have refused: "\<not> put_accepts req live"
      by (simp add: put_accepts_def)
    show "match_all (caches (snd (on_fetch e req w))) req = None"
      using assms(4)
      by (simp add: run caches_put_refused [OF refused] caches_record_event match_all_open_store)
    show "\<forall>name r. store_get (caches (snd (on_fetch e req w))) name r
                        = store_get (caches w) name r"
      by (simp add: run caches_put_refused [OF refused] caches_record_event store_get_open_store)
  qed
  show ?thesis
    using answered found stored missed kept by blast
qed

theorem cacheFirst_miss_200_stored_witness:
  "isHttp tailwind \<and> \<not> isFirebase tailwind \<and> isLibrary tailwind \<and>
   match_all (caches (holding [])) tailwind = None \<and>
   net (serving (page 200 ''css'')) tailwind = Resolved (page 200 ''css'') \<and>
   status (page 200 ''css'') = 200 \<and> rtype (page 200 ''css'') \<noteq> TError \<and>
   rmethod tailwind = ''GET'' \<and> \<not> vary_star (page 200 ''css'') \<and>
   fst (on_fetch (serving (page 200 ''css'')) tailwind (holding [])) = Reply (page 200 ''css'') \<and>
   match_all (caches (snd (on_fetch (serving (page 200 ''css'')) tailwind (holding [])))) tailwind
     = Some (page 200 ''css'') \<and>
   net (serving varying) tailwind = Resolved varying \<and>
   status varying = 200 \<and> rtype varying \<noteq> TError \<and> vary_star varying \<and>
   match_all (caches (snd (on_fetch (serving varying) tailwind (holding [])))) tailwind = None"
proof -
  have miss: "match_all (caches (holding [])) tailwind = None"
    by (simp add: holding_def match_all_Nil)
  have live: "net (serving (page 200 ''css'')) tailwind = Resolved (page 200 ''css'')"
      "net (serving varying) tailwind = Resolved varying"
    by (simp_all add: serving_def)
  have ok: "status (page 200 ''css'') = 200" "rtype (page 200 ''css'') \<noteq> TError"
      "status varying = 200" "rtype varying \<noteq> TError"
    by (simp_all add: page_def varying_def)
  have accepted: "rmethod tailwind = ''GET''" "\<not> vary_star (page 200 ''css'')"
    by (simp_all add: tailwind_def page_def vary_star_def)
  have refused: "vary_star varying"
    by (simp add: varying_def vary_star_def lower_char_def trim_blanks_def is_blank_def)
  show ?thesis
    using cacheFirst_miss_200_stored [OF tailwind_class miss live(1) ok(1,2)]
          cacheFirst_miss_200_stored [OF tailwind_class miss live(2) ok(3,4)]
          tailwind_class miss live ok accepted refused
    by simp
qed

text \<open>
  Claim C6. A NetworkFirst-class request whose live fetch rejects is answered from the
  store when the lookup finds the request, with the snapshot stored before; otherwise
  with the synthetic response of status 503 that carries the application's offline
  message. The storage is not changed.
\<close>

theorem networkFirst_offline:
  assumes "isHttp req" and "\<not> isFirebase req" and "\<not> isLibrary req"
    and "net e req = NetworkError"
  shows "fst (on_fetch e req w) =
           Reply (case match_all (caches w) req of Some prior \<Rightarrow> prior | None \<Rightarrow> appOffline)
       \<and> caches (snd (on_fetch e req w)) = caches w
       \<and> status appOffline = 503
       \<and> body appOffline = ''Offline - Contenuto non disponibile''"
  using assms
  by (simp add: on_fetch_def networkFirst_def caches_match_def live_fetch_def
      caches_record_event appOffline_def offline_response_def split: option.splits)

theorem networkFirst_offline_witness:
  "isHttp index_html \<and> \<not> isFirebase index_html \<and> \<not> isLibrary index_html \<and>
   net offline index_html = NetworkError \<and>
   fst (on_fetch offline index_html (holding [(CACHE_NAME, [index_html \<mapsto> page 200 ''app''])]))
     = Reply (page 200 ''app'') \<and>
   fst (on_fetch offline index_html (holding [(CACHE_NAME, Map.empty)])) = Reply appOffline \<and>
   status appOffline = 503"
proof -
  have down: "net offline index_html = NetworkError"
    by (simp add: offline_def)
  show ?thesis
    using networkFirst_offline [OF index_html_class down,
            of "holding [(CACHE_NAME, [index_html \<mapsto> page 200 ''app''])]"]
          networkFirst_offline [OF index_html_class down, of "holding [(CACHE_NAME, Map.empty)]"]
          index_html_class down
    by (simp add: holding_def match_all_def index_html_def)
qed

text \<open>
  Claim C7. A CacheFirst-class request that the store lookup does not find and whose
  live fetch rejects is answered with the synthetic plain-text response of status 503
  that carries the library offline message, which differs from the application's. The
  second lookup, made after the rejection, reads the storage the first one read, since
  the handler has written nothing in between.
\<close>

theorem cacheFirst_offline_miss:
  assumes "isHttp req" and "\<not> isFirebase req" and "isLibrary req"
    and "match_all (caches w) req = None"
    and "net e req = NetworkError"
  shows "fst (on_fetch e req w) = Reply libraryOffline
       \<and> status libraryOffline = 503
       \<and> headers libraryOffline = [(''Content-Type'', ''text/plain'')]
       \<and> body libraryOffline = ''Offline - Libreria non disponibile''
       \<and> body libraryOffline \<noteq> body appOffline"
  using assms
  by (simp add: on_fetch_def cacheFirst_def caches_match_def live_fetch_def
      caches_record_event libraryOffline_def appOffline_def offline_response_def)

theorem cacheFirst_offline_miss_witness:
  "isHttp tailwind \<and> \<not> isFirebase tailwind \<and> isLibrary tailwind \<and>
   match_all (caches (holding [(CACHE_NAME, Map.empty)])) tailwind = None \<and>
   net offline tailwind = NetworkError \<and>
   fst (on_fetch offline tailwind (holding [(CACHE_NAME, Map.empty)])) = Reply libraryOffline \<and>
   status libraryOffline = 503"
proof -
  have miss: "match_all (caches (holding [(CACHE_NAME, Map.empty)])) tailwind = None"
    by (simp add: holding_def match_all_def)
  have down: "net offline tailwind = NetworkError"
    by (simp add: offline_def)
  show ?thesis
    using cacheFirst_offline_miss [OF tailwind_class miss down] tailwind_class miss down
    by simp
qed

section \<open>Activation\<close>

lemma caches_delete_if_old:
  "caches (delete_if_old w name) =
     filter (\<lambda>(n, c). n = CACHE_NAME \<or> n \<noteq> name) (caches w)"
proof (cases "name = CACHE_NAME")
  case True
  then have "filter (\<lambda>(n, c). n = CACHE_NAME \<or> n \<noteq> name) (caches w) = caches w"
    by (induction "caches w") (auto simp: filter_id_conv)
  with True show ?thesis by (simp add: delete_if_old_def)
next
  case False
  then have "(\<lambda>(n::string, c::cache). n = CACHE_NAME \<or> n \<noteq> name) = (\<lambda>(n, c). n \<noteq> name)"
    by auto
  with False show ?thesis
    by (simp add: delete_if_old_def caches_delete_def caches_record_event)
qed

lemma caches_foldl_delete_if_old:
  "caches (foldl delete_if_old w names) =
     filter (\<lambda>(n, c). n = CACHE_NAME \<or> n \<notin> set names) (caches w)"
proof (induction names arbitrary: w)
  case Nil
  then show ?case by simp
next
  case (Cons name names)
  have "caches (foldl delete_if_old w (name # names)) =
          filter (\<lambda>(n, c). n = CACHE_NAME \<or> n \<notin> set names)
            (filter (\<lambda>(n, c). n = CACHE_NAME \<or> n \<noteq> name) (caches w))"
    by (simp add: Cons.IH caches_delete_if_old)
  also have "\<dots> = filter (\<lambda>(n, c). n = CACHE_NAME \<or> n \<notin> set (name # names)) (caches w)"
    by (auto intro: filter_cong)
  finally show ?case .
qed

lemma caches_activate:
  "caches (activate w) = filter (\<lambda>(n, c). n = CACHE_NAME) (caches w)"
proof -
  have "caches (activate w) =
          filter (\<lambda>(n, c). n = CACHE_NAME \<or> n \<notin> set (store_ids (caches w))) (caches w)"
    by (simp add: activate_def caches_keys_def clients_claim_def caches_record_event
        caches_foldl_delete_if_old)
  also have "\<dots> = filter (\<lambda>(n, c). n = CACHE_NAME) (caches w)"
    by (rule filter_cong) (force simp: store_ids_def)+
  finally show ?thesis .
qed

lemma map_of_filter_key:
  "map_of (filter (\<lambda>(n, c). n = k) cs) n' = (if n' = k then map_of cs n' else None)"
  by (induction cs) auto

text \<open>
  Claim C8. After activation of a worker whose store exists (install opens it), the
  enumeration of the store ids yields the current generation id and nothing else: every
  store of another id has been deleted, and the current store is kept with its entries.
\<close>

theorem activate_leaves_current_only:
  assumes "CACHE_NAME \<in> set (store_ids (caches w))"
  shows "set (fst (caches_keys (activate w))) = {CACHE_NAME}
       \<and> (\<forall>n. n \<noteq> CACHE_NAME \<longrightarrow> map_of (caches (activate w)) n = None)
       \<and> map_of (caches (activate w)) CACHE_NAME = map_of (caches w) CACHE_NAME"
  using assms
  by (auto simp: caches_keys_def caches_activate store_ids_def map_of_filter_key)

theorem activate_leaves_current_only_witness:
  "CACHE_NAME \<in> set (store_ids (caches (holding
      [(LEGACY_CACHE_NAME, [index_html \<mapsto> page 200 ''v2'']),
       (CACHE_NAME, [index_html \<mapsto> page 200 ''v2.1.0''])]))) \<and>
   set (fst (caches_keys (activate (holding
      [(LEGACY_CACHE_NAME, [index_html \<mapsto> page 200 ''v2'']),
       (CACHE_NAME, [index_html \<mapsto> page 200 ''v2.1.0''])])))) = {CACHE_NAME} \<and>
   LEGACY_CACHE_NAME \<noteq> CACHE_NAME \<and>
   map_of (caches (activate (holding
      [(LEGACY_CACHE_NAME, [index_html \<mapsto> page 200 ''v2'']),
       (CACHE_NAME, [index_html \<mapsto> page 200 ''v2.1.0''])]))) LEGACY_CACHE_NAME = None"
proof -
  have present: "CACHE_NAME \<in> set (store_ids (caches (holding
      [(LEGACY_CACHE_NAME, [index_html \<mapsto> page 200 ''v2'']),
       (CACHE_NAME, [index_html \<mapsto> page 200 ''v2.1.0''])])))"
    by (simp add: holding_def store_ids_def)
  have other: "LEGACY_CACHE_NAME \<noteq> CACHE_NAME"
    by (simp add: LEGACY_CACHE_NAME_def CACHE_NAME_def CACHE_VERSION_def)
  show ?thesis
    using activate_leaves_current_only [OF present] present other by simp
qed

section \<open>Installation\<close>

lemma caches_foldl_live_fetch:
  "caches (foldl (\<lambda>w' req. snd (live_fetch e req w')) w reqs) = caches w"
  by (induction reqs arbitrary: w) (simp_all add: live_fetch_def caches_record_event)

lemma store_ids_put_fetched:
  "store_ids (caches (put_fetched e name w req)) = store_ids (caches w)"
  by (simp add: put_fetched_def cache_put_def caches_record_event store_ids_put_store
      split: fetch_result.splits)

lemma store_ids_foldl_put_fetched:
  "store_ids (caches (foldl (put_fetched e name) w reqs)) = store_ids (caches w)"
  by (induction reqs arbitrary: w) (simp_all add: store_ids_put_fetched)

lemma store_ids_cache_addAll:
  "store_ids (caches (snd (cache_addAll e name urls w))) = store_ids (caches w)"
  by (simp add: cache_addAll_def Let_def store_ids_foldl_put_fetched caches_foldl_live_fetch)

lemma cache_addAll_rejected:
  assumes "\<not> list_all (\<lambda>u. storable (net e (to_request e u))) urls"
  shows "fst (cache_addAll e name urls w) = Rejected"
    and "caches (snd (cache_addAll e name urls w)) = caches w"
  using assms
  by (auto simp: cache_addAll_def Let_def list_all_iff caches_foldl_live_fetch)

lemma install_never_rejects: "fst (install e w) = Fulfilled"
  by (simp add: install_def split: prod.splits settled.splits)

lemma install_failed_stores_nothing:
  assumes "\<not> list_all (\<lambda>u. storable (net e (to_request e u))) urlsToCache"
  shows "caches (snd (install e w)) = open_store CACHE_NAME (caches w)"
proof -
  obtain w1 where w1: "cache_addAll e CACHE_NAME urlsToCache (caches_open CACHE_NAME w) = (Rejected, w1)"
    using cache_addAll_rejected(1) [OF assms, of CACHE_NAME "caches_open CACHE_NAME w"]
    by (cases "cache_addAll e CACHE_NAME urlsToCache (caches_open CACHE_NAME w)") simp
  have "caches w1 = caches (caches_open CACHE_NAME w)"
    using cache_addAll_rejected(2) [OF assms, of CACHE_NAME "caches_open CACHE_NAME w"] w1
    by simp
  then show ?thesis
    using w1 by (simp add: install_def caches_open_def caches_record_event)
qed

lemma install_opens_current: "CACHE_NAME \<in> set (store_ids (caches (snd (install e w))))"
proof -
  obtain s w1 where run: "cache_addAll e CACHE_NAME urlsToCache (caches_open CACHE_NAME w) = (s, w1)"
    by (cases "cache_addAll e CACHE_NAME urlsToCache (caches_open CACHE_NAME w)")
  have "store_ids (caches w1) = store_ids (caches (caches_open CACHE_NAME w))"
    using store_ids_cache_addAll [of e CACHE_NAME urlsToCache "caches_open CACHE_NAME w"] run
    by simp
  then have "CACHE_NAME \<in> set (store_ids (caches w1))"
    by (simp add: caches_open_def caches_record_event open_store_has)
  then show ?thesis
    using run by (cases s) (simp_all add: install_def skipWaiting_def caches_record_event)
qed

lemma activate_after_install:
  "set (store_ids (caches (activate (snd (install e w))))) = {CACHE_NAME}"
  using install_opens_current [of e w]
  by (auto simp: caches_activate store_ids_def)

lemma legacy_install_rejects:
  assumes "\<not> list_all (\<lambda>u. storable (net e (to_request e u))) legacy_urlsToCache"
  shows "fst (legacy_install e w) = Rejected"
  using cache_addAll_rejected(1) [OF assms] by (simp add: legacy_install_def)

lemma manifest_fetch_fails:
  "\<not> list_all (\<lambda>u. storable (net without_manifest (to_request without_manifest u))) urlsToCache"
  by (simp add: urlsToCache_def without_manifest_def resolve_def storable_def)

lemma legacy_differs: "LEGACY_CACHE_NAME \<noteq> CACHE_NAME"
  by (simp add: LEGACY_CACHE_NAME_def CACHE_NAME_def CACHE_VERSION_def)

text \<open>
  Claim C1, evaluated where it fails. The previous generation's store exists and the
  fetch of \<^verbatim>\<open>/manifest.json\<close> rejects during installation. \<^verbatim>\<open>cache.addAll\<close>
  rejects and stores nothing, but the \<^verbatim>\<open>.catch\<close> at the end of the chain turns the
  rejection into a fulfilment: the promise given to \<^verbatim>\<open>waitUntil\<close> fulfils, the
  installation counts as successful with an empty store, and the activation that follows
  deletes the previous generation's store.
\<close>

theorem install_fulfils_despite_failed_fetch:
  "net without_manifest (to_request without_manifest ''/manifest.json'') = NetworkError
   \<and> fst (install without_manifest previous_generation) = Fulfilled
   \<and> store_ids (caches (snd (install without_manifest previous_generation)))
       = [LEGACY_CACHE_NAME, CACHE_NAME]
   \<and> (\<forall>req. store_get (caches (snd (install without_manifest previous_generation)))
               CACHE_NAME req = None)
   \<and> store_ids (caches (activate (snd (install without_manifest previous_generation))))
       = [CACHE_NAME]
   \<and> fst (legacy_install without_manifest previous_generation) = Rejected"
proof -
  have stored: "caches (snd (install without_manifest previous_generation)) =
      [(LEGACY_CACHE_NAME, [index_html \<mapsto> page 200 ''v2'']), (CACHE_NAME, Map.empty)]"
    using legacy_differs
    by (simp add: install_failed_stores_nothing [OF manifest_fetch_fails] open_store_def
        store_ids_def previous_generation_def holding_def)
  have "net without_manifest (to_request without_manifest ''/manifest.json'') = NetworkError"
    by (simp add: without_manifest_def resolve_def)
  moreover have "fst (install without_manifest previous_generation) = Fulfilled"
    by (rule install_never_rejects)
  moreover have "store_ids (caches (snd (install without_manifest previous_generation)))
       = [LEGACY_CACHE_NAME, CACHE_NAME]"
    by (simp add: stored store_ids_def)
  moreover have "\<forall>req. store_get (caches (snd (install without_manifest previous_generation)))
               CACHE_NAME req = None"
    using legacy_differs by (simp add: stored store_get_def)
  moreover have "store_ids (caches (activate (snd (install without_manifest previous_generation))))
       = [CACHE_NAME]"
    using legacy_differs by (simp add: caches_activate stored store_ids_def)
  moreover have "fst (legacy_install without_manifest previous_generation) = Rejected"
    by (rule legacy_install_rejects)
       (simp add: legacy_urlsToCache_def without_manifest_def resolve_def storable_def)
  ultimately show ?thesis by simp
qed

section \<open>The control channel\<close>

lemma caches_caches_delete:
  "caches (caches_delete name w) = filter (\<lambda>(n, c). n \<noteq> name) (caches w)"
  by (simp add: caches_delete_def caches_record_event)

lemma clients_caches_delete: "clients (caches_delete name w) = clients w"
  by (simp add: caches_delete_def clients_record_event)

lemma caches_foldl_caches_delete:
  "caches (foldl (\<lambda>w' name. caches_delete name w') w names) =
     filter (\<lambda>(n, c). n \<notin> set names) (caches w)"
proof (induction names arbitrary: w)
  case Nil
  then show ?case by simp
next
  case (Cons name names)
  have "caches (foldl (\<lambda>w' name. caches_delete name w') w (name # names)) =
          filter (\<lambda>(n, c). n \<notin> set names) (filter (\<lambda>(n, c). n \<noteq> name) (caches w))"
    by (simp add: Cons.IH caches_caches_delete)
  also have "\<dots> = filter (\<lambda>(n, c). n \<notin> set (name # names)) (caches w)"
    by (auto intro: filter_cong)
  finally show ?case .
qed

lemma clients_foldl_caches_delete:
  "clients (foldl (\<lambda>w' name. caches_delete name w') w names) = clients w"
  by (induction names arbitrary: w) (simp_all add: clients_caches_delete)

lemma caches_foldl_postMessage: "caches (foldl (postMessage m) w cs) = caches w"
  by (induction cs arbitrary: w) (simp_all add: postMessage_def caches_record_event)

lemma trace_foldl_postMessage:
  "trace (foldl (postMessage m) w cs) = trace w @ map (\<lambda>c. PostMessage c m) cs"
  by (induction cs arbitrary: w) (simp_all add: postMessage_def trace_record_event)

lemma caches_clear_cache: "caches (clear_cache w) = []"
proof -
  have "caches (clear_cache w) = filter (\<lambda>(n, c). n \<notin> set (store_ids (caches w))) (caches w)"
    by (simp add: clear_cache_def caches_keys_def clients_matchAll_def caches_record_event
        caches_foldl_postMessage caches_foldl_caches_delete)
  also have "\<dots> = []"
    by (force simp: store_ids_def filter_empty_conv)
  finally show ?thesis .
qed

lemma broadcast_clear_cache:
  assumes "c \<in> set (clients w)"
  shows "PostMessage c (CacheCleared ''Cache pulita con successo!'') \<in> set (trace (clear_cache w))"
  using assms
  by (simp add: clear_cache_def caches_keys_def clients_matchAll_def trace_foldl_postMessage
      clients_record_event clients_foldl_caches_delete)

text \<open>
  Claim C9. After a \<^verbatim>\<open>CLEAR_CACHE\<close> message has been processed no store exists, of
  any generation, so no lookup finds any entry, and every client that
  \<^verbatim>\<open>clients.matchAll()\<close> reports has been posted the \<^verbatim>\<open>CACHE_CLEARED\<close> message.
\<close>

theorem clear_cache_purges_and_broadcasts:
  assumes "msg_type ev = Some ''CLEAR_CACHE''"
  shows "\<exists>w'. on_message ev w = Inr w'
       \<and> fst (caches_keys w') = []
       \<and> (\<forall>name req. store_get (caches w') name req = None)
       \<and> (\<forall>req. match_all (caches w') req = None)
       \<and> (\<forall>c \<in> set (clients w).
             PostMessage c (CacheCleared ''Cache pulita con successo!'') \<in> set (trace w'))"
proof -
  have "on_message ev w = Inr (clear_cache w)"
    using assms by (simp add: on_message_def)
  moreover have "fst (caches_keys (clear_cache w)) = []"
    by (simp add: caches_keys_def caches_clear_cache store_ids_def)
  moreover have "\<forall>name req. store_get (caches (clear_cache w)) name req = None"
    by (simp add: caches_clear_cache store_get_def)
  moreover have "\<forall>req. match_all (caches (clear_cache w)) req = None"
    by (simp add: caches_clear_cache match_all_Nil)
  moreover have "\<forall>c \<in> set (clients w).
      PostMessage c (CacheCleared ''Cache pulita con successo!'') \<in> set (trace (clear_cache w))"
    by (simp add: broadcast_clear_cache)
  ultimately show ?thesis by blast
qed

theorem clear_cache_purges_and_broadcasts_witness:
  "msg_type \<lparr>msg_type = Some ''CLEAR_CACHE'', ports = []\<rparr> = Some ''CLEAR_CACHE'' \<and>
   1 \<in> set (clients two_pages) \<and> 2 \<in> set (clients two_pages) \<and>
   (\<exists>w'. on_message \<lparr>msg_type = Some ''CLEAR_CACHE'', ports = []\<rparr> two_pages = Inr w'
       \<and> fst (caches_keys w') = []
       \<and> match_all (caches w') tailwind = None
       \<and> PostMessage 1 (CacheCleared ''Cache pulita con successo!'') \<in> set (trace w')
       \<and> PostMessage 2 (CacheCleared ''Cache pulita con successo!'') \<in> set (trace w'))"
proof -
  have cmd: "msg_type \<lparr>msg_type = Some ''CLEAR_CACHE'', ports = []\<rparr> = Some ''CLEAR_CACHE''"
    by simp
  have known: "1 \<in> set (clients two_pages)" "2 \<in> set (clients two_pages)"
    by (simp_all add: two_pages_def)
  show ?thesis
    using clear_cache_purges_and_broadcasts [OF cmd, of two_pages] cmd known by blast
qed

section \<open>Store writes on the request path\<close>

text \<open>
  Claim C10. Whatever the request, the network and the world, the fetch handler opens
  and writes no store but the one named by the current generation id, and deletes none:
  among the platform calls it adds to the trace, every open and every put names
  \<^verbatim>\<open>CACHE_NAME\<close>, and every store of another id is after the handler what it was
  before.
\<close>

theorem request_path_writes_current_store_only:
  "(\<exists>evs. trace (snd (on_fetch e req w)) = trace w @ evs
       \<and> (\<forall>ev \<in> set evs. \<forall>name r x.
             ev = CachesOpen name \<or> ev = CachePut name r x \<longrightarrow> name = CACHE_NAME)
       \<and> (\<forall>ev \<in> set evs. \<forall>name. ev \<noteq> CachesDelete name))
   \<and> (\<forall>name. name \<noteq> CACHE_NAME \<longrightarrow>
         map_of (caches (snd (on_fetch e req w))) name = map_of (caches w) name)"
  by (auto simp: on_fetch_def answer_of_bypass cacheFirst_def networkFirst_def caches_match_def
      live_fetch_def cache_put_def caches_open_def caches_record_event trace_record_event
      map_of_put_store_other map_of_open_store_other
      split: option.splits fetch_result.splits)

theorem request_path_writes_current_store_only_witness:
  "LEGACY_CACHE_NAME \<noteq> CACHE_NAME \<and>
   map_of (caches (snd (on_fetch (serving (page 200 ''app'')) index_html previous_generation)))
     LEGACY_CACHE_NAME = map_of (caches previous_generation) LEGACY_CACHE_NAME \<and>
   trace (snd (on_fetch (serving (page 200 ''app'')) index_html previous_generation))
     = [Fetch index_html, CachesOpen CACHE_NAME, CachePut CACHE_NAME index_html (page 200 ''app'')]"
proof -
  have "\<forall>name. name \<noteq> CACHE_NAME \<longrightarrow>
      map_of (caches (snd (on_fetch (serving (page 200 ''app'')) index_html previous_generation)))
        name = map_of (caches previous_generation) name"
    using request_path_writes_current_store_only
            [of "serving (page 200 ''app'')" index_html previous_generation]
    by blast
  moreover have "trace (snd (on_fetch (serving (page 200 ''app'')) index_html previous_generation))
     = [Fetch index_html, CachesOpen CACHE_NAME, CachePut CACHE_NAME index_html (page 200 ''app'')]"
    using index_html_class
    by (simp add: on_fetch_def networkFirst_def live_fetch_def serving_def cache_put_def
        caches_open_def trace_record_event previous_generation_def holding_def)
  ultimately show ?thesis
    using legacy_differs by simp
qed

end
